theory Spec2Isabelle
  imports Main "HOL-Library.Word"
begin

section \<open>The managed-runtime bridge of m.c\<close>

text \<open>
  The file m.c is a thin layer of C functions over the embedding interface of the Mono
  runtime. The runtime itself is not part of the sources: it is the environment of every
  function here. It is modelled as a record of operations over an abstract runtime state
  \<open>'s\<close>: an operation that only inspects the runtime takes the state, one that changes it
  (allocation, invocation of managed code) also returns the new state. The functions of
  m.c are translated one by one on top of that record, with explicit state passing.
\<close>

subsection \<open>C values\<close>

text \<open>
  Every handle of the interface (\<open>MonoAssembly *\<close>, \<open>MonoImage *\<close>, \<open>MonoClass *\<close>,
  \<open>MonoObject *\<close>, \<open>gpointer\<close>, ...) is an address; the null pointer is address 0.
  \<open>gint\<close> is a 32-bit signed integer and \<open>uintptr_t\<close> an unsigned integer of pointer
  width (64 bits). A \<open>const gchar *\<close> that may be null is a \<open>string option\<close>.
\<close>

type_synonym ptr = nat
type_synonym gint = "32 word"
type_synonym uintptr = "64 word"

abbreviation NULL :: ptr where
  "NULL \<equiv> 0"

text \<open>
  A call of \<open>g_error\<close> logs its message at the error level, which always aborts the
  process: the function does not return. \<open>Overrun\<close> stands for a write past the end of a
  fixed-size buffer, after which the behaviour of the C program is undefined.
\<close>

datatype failure = Fatal string | Overrun

text \<open>
  The structures \<open>MObject\<close> and \<open>MArray\<close> of m.h wrap one pointer each (the member
  \<open>__priv\<close>), and \<open>struct _MDomain\<close> wraps the runtime's domain.
\<close>

record MObject =
  object_priv :: ptr

record MArray =
  array_priv :: ptr

record MDomain =
  domain :: ptr

record MAssemblyQuery =
  query_assembly :: ptr
  query_name :: "string option"

text \<open>
  Modelled from the spec: the enumeration \<open>MRuntime\<close> is declared in m.h, which is not
  among the sources. The specification speaks of two supported version tags; they are the
  two enumerators the \<open>switch\<close> of \<open>m_domain_new\<close> names, numbered in declaration order
  as C numbers enumerators. A value of the enumeration type is a C integer, so the
  parameter can hold any other number too.
\<close>

type_synonym MRuntime = int

definition M_RUNTIME_4_0 :: MRuntime where
  "M_RUNTIME_4_0 = 0"

definition M_RUNTIME_4_5 :: MRuntime where
  "M_RUNTIME_4_5 = 1"

subsection \<open>The embedded runtime\<close>

text \<open>
  One field for each function of the Mono interface that m.c calls, under the name of
  the C function. \<open>loaded_assemblies\<close> is the list \<open>mono_assembly_foreach\<close> walks, in
  the order it walks it. A method description made by \<open>mono_method_desc_new\<close> is kept as
  its two arguments (the text and the \<open>include_namespace\<close> flag), and
  \<open>mono_method_desc_free\<close> has nothing to do.
\<close>

record 's mono =
  loaded_assemblies :: "'s \<Rightarrow> ptr list"
  mono_assembly_get_image :: "'s \<Rightarrow> ptr \<Rightarrow> ptr"
  mono_image_get_name :: "'s \<Rightarrow> ptr \<Rightarrow> string option"
  mono_domain_get :: "'s \<Rightarrow> ptr"
  mono_class_from_name :: "'s \<Rightarrow> ptr \<Rightarrow> string \<Rightarrow> string \<Rightarrow> ptr"
  mono_object_new :: "'s \<Rightarrow> ptr \<Rightarrow> ptr \<Rightarrow> ptr \<times> 's"
  mono_class_get_method_from_name :: "'s \<Rightarrow> ptr \<Rightarrow> string \<Rightarrow> gint \<Rightarrow> ptr"
  mono_class_get_type :: "'s \<Rightarrow> ptr \<Rightarrow> ptr"
  mono_type_is_struct :: "'s \<Rightarrow> ptr \<Rightarrow> bool"
  mono_runtime_invoke :: "'s \<Rightarrow> ptr \<Rightarrow> ptr \<Rightarrow> ptr \<Rightarrow> ptr \<times> 's"
  mono_object_unbox :: "'s \<Rightarrow> ptr \<Rightarrow> ptr"
  mono_object_get_class :: "'s \<Rightarrow> ptr \<Rightarrow> ptr"
  mono_class_get_property_from_name :: "'s \<Rightarrow> ptr \<Rightarrow> string \<Rightarrow> ptr"
  mono_property_get_value :: "'s \<Rightarrow> ptr \<Rightarrow> ptr \<Rightarrow> ptr \<times> 's"
  mono_property_set_value :: "'s \<Rightarrow> ptr \<Rightarrow> ptr \<Rightarrow> ptr list \<Rightarrow> 's"
  mono_class_get_field_from_name :: "'s \<Rightarrow> ptr \<Rightarrow> string \<Rightarrow> ptr"
  mono_field_set_value :: "'s \<Rightarrow> ptr \<Rightarrow> ptr \<Rightarrow> ptr \<Rightarrow> 's"
  mono_method_desc_search_in_image :: "'s \<Rightarrow> string \<times> bool \<Rightarrow> ptr \<Rightarrow> ptr"
  mono_get_int32_class :: "'s \<Rightarrow> ptr"
  mono_array_new :: "'s \<Rightarrow> ptr \<Rightarrow> ptr \<Rightarrow> uintptr \<Rightarrow> ptr \<times> 's"
  mono_array_addr_with_size :: "'s \<Rightarrow> ptr \<Rightarrow> gint \<Rightarrow> gint \<Rightarrow> ptr"
  mono_array_length :: "'s \<Rightarrow> ptr \<Rightarrow> uintptr"
  mono_set_dirs :: "'s \<Rightarrow> string option \<Rightarrow> string option \<Rightarrow> 's"
  mono_jit_init_version :: "'s \<Rightarrow> string \<Rightarrow> string \<Rightarrow> ptr \<times> 's"

definition mono_assembly_foreach :: "'s mono \<Rightarrow> 's \<Rightarrow> (ptr \<Rightarrow> 'q \<Rightarrow> 'q) \<Rightarrow> 'q \<Rightarrow> 'q" where
  "mono_assembly_foreach rt s func user_data =
     foldl (\<lambda>q a. func a q) user_data (loaded_assemblies rt s)"

subsection \<open>String comparison\<close>

text \<open>
  \<open>strcmp\<close> compares byte by byte; only the sign of its result is fixed by C.
  \<open>g_strcmp0\<close> is GLib's comparison that accepts null pointers: null sorts before
  every string and equals only null.
\<close>

fun strcmp :: "string \<Rightarrow> string \<Rightarrow> int" where
  "strcmp [] [] = 0"
| "strcmp [] (y # ys) = - 1"
| "strcmp (x # xs) [] = 1"
| "strcmp (x # xs) (y # ys) =
     (if x = y then strcmp xs ys
      else if (of_char x :: nat) < of_char y then - 1 else 1)"

definition g_strcmp0 :: "string option \<Rightarrow> string option \<Rightarrow> int" where
  "g_strcmp0 str1 str2 =
     (case str1 of
        None \<Rightarrow> (if str1 \<noteq> str2 then - 1 else 0)
      | Some a \<Rightarrow> (case str2 of None \<Rightarrow> 1 | Some b \<Rightarrow> strcmp a b))"

subsection \<open>Assembly lookup\<close>

definition assembly_get_name :: "'s mono \<Rightarrow> 's \<Rightarrow> ptr \<Rightarrow> string option" where
  "assembly_get_name rt s assembly =
     mono_image_get_name rt s (mono_assembly_get_image rt s assembly)"

definition foreach_assembly :: "'s mono \<Rightarrow> 's \<Rightarrow> ptr \<Rightarrow> MAssemblyQuery \<Rightarrow> MAssemblyQuery" where
  "foreach_assembly rt s assembly query =
     (if g_strcmp0 (assembly_get_name rt s assembly) (query_name query) = 0
      then query\<lparr>query_assembly := assembly\<rparr>
      else query)"

text \<open>
  \<open>find_assembly\<close> declares its \<open>MAssemblyQuery\<close> without an initialiser and assigns
  only the member \<open>name\<close>. The member \<open>assembly\<close> starts with whatever the stack slot
  holds: that value is the parameter \<open>indeterminate\<close>.
\<close>

definition find_assembly :: "'s mono \<Rightarrow> 's \<Rightarrow> ptr \<Rightarrow> string option \<Rightarrow> ptr" where
  "find_assembly rt s indeterminate name =
     query_assembly
       (mono_assembly_foreach rt s (foreach_assembly rt s)
          \<lparr>query_assembly = indeterminate, query_name = name\<rparr>)"

text \<open>
  The specification's reading of the lookup, for comparison: the first loaded assembly
  whose image name equals the given name, null when there is none.
\<close>

definition first_matching_assembly :: "'s mono \<Rightarrow> 's \<Rightarrow> string option \<Rightarrow> ptr" where
  "first_matching_assembly rt s name =
     (case List.find (\<lambda>a. assembly_get_name rt s a = name) (loaded_assemblies rt s) of
        None \<Rightarrow> NULL
      | Some a \<Rightarrow> a)"

subsection \<open>Domain creation\<close>

text \<open>
  The wrapper structure is allocated with \<open>g_malloc0\<close> before the \<open>switch\<close>; its
  address plays no part in what follows, and the wrapper is returned by value here.
\<close>

definition m_domain_new ::
  "'s mono \<Rightarrow> 's \<Rightarrow> string option \<Rightarrow> string option \<Rightarrow> string \<Rightarrow> MRuntime
     \<Rightarrow> failure + (MDomain \<times> 's)" where
  "m_domain_new rt s assembly_dir config_dir root_domain_name runtime =
     (case (if runtime = M_RUNTIME_4_0 then Inr ''v4.0.30319''
            else if runtime = M_RUNTIME_4_5 then Inr ''v4.0.30319''
            else Inl (Fatal ''M: Invalid runtime version.'')) of
        Inl e \<Rightarrow> Inl e
      | Inr version \<Rightarrow>
          (let s1 = mono_set_dirs rt s assembly_dir config_dir;
               (d, s2) = mono_jit_init_version rt s1 root_domain_name version
           in Inr (\<lparr>domain = d\<rparr>, s2)))"

subsection \<open>Objects\<close>

text \<open>
  The string parameters of the exported functions are valid C strings. Messages of
  \<open>g_error\<close> are given with their arguments filled in; \<open>CHR 0x0A\<close> is the newline
  some of them end with.
\<close>

definition m_object ::
  "'s mono \<Rightarrow> 's \<Rightarrow> ptr \<Rightarrow> string \<Rightarrow> string \<Rightarrow> string \<Rightarrow> gint \<Rightarrow> ptr
     \<Rightarrow> failure + (MObject \<times> 's)" where
  "m_object rt s indeterminate assembly_name name_space name argc args =
     (let assembly = find_assembly rt s indeterminate (Some assembly_name);
          image = mono_assembly_get_image rt s assembly;
          klass = mono_class_from_name rt s image name_space name;
          (object, s1) = mono_object_new rt s (mono_domain_get rt s) klass;
          ctor = mono_class_get_method_from_name rt s1 klass ''.ctor'' argc;
          type = mono_class_get_type rt s1 klass
      in if ctor = NULL
         then Inl (Fatal (''M: Unable to find constructor for type '' @ name @ ''.'' @ [CHR 0x0A]))
         else if mono_type_is_struct rt s1 type
         then (let (r, s2) = mono_runtime_invoke rt s1 ctor (mono_object_unbox rt s1 object) args
               in Inr (\<lparr>object_priv = object\<rparr>, s2))
         else (let (r, s2) = mono_runtime_invoke rt s1 ctor object args
               in Inr (\<lparr>object_priv = object\<rparr>, s2)))"

definition m_object_get_property :: "'s mono \<Rightarrow> 's \<Rightarrow> MObject \<Rightarrow> string \<Rightarrow> MObject \<times> 's" where
  "m_object_get_property rt s object property_name =
     (let klass = mono_object_get_class rt s (object_priv object);
          prop = mono_class_get_property_from_name rt s klass property_name;
          type = mono_class_get_type rt s klass
      in if mono_type_is_struct rt s type
         then (let (r, s1) = mono_property_get_value rt s prop
                               (mono_object_unbox rt s (object_priv object))
               in (\<lparr>object_priv = r\<rparr>, s1))
         else (let (r, s1) = mono_property_get_value rt s prop (object_priv object)
               in (\<lparr>object_priv = r\<rparr>, s1)))"

definition m_object_get_property_array :: "'s mono \<Rightarrow> 's \<Rightarrow> MObject \<Rightarrow> string \<Rightarrow> MArray \<times> 's" where
  "m_object_get_property_array rt s object property_name =
     (let klass = mono_object_get_class rt s (object_priv object);
          prop = mono_class_get_property_from_name rt s klass property_name;
          type = mono_class_get_type rt s klass
      in if mono_type_is_struct rt s type
         then (let (r, s1) = mono_property_get_value rt s prop
                               (mono_object_unbox rt s (object_priv object))
               in (\<lparr>array_priv = r\<rparr>, s1))
         else (let (r, s1) = mono_property_get_value rt s prop (object_priv object)
               in (\<lparr>array_priv = r\<rparr>, s1)))"

definition m_object_set_property :: "'s mono \<Rightarrow> 's \<Rightarrow> MObject \<Rightarrow> string \<Rightarrow> ptr \<Rightarrow> 's" where
  "m_object_set_property rt s object property_name val =
     (let klass = mono_object_get_class rt s (object_priv object);
          prop = mono_class_get_property_from_name rt s klass property_name;
          type = mono_class_get_type rt s klass;
          args = [val]
      in if mono_type_is_struct rt s type
         then mono_property_set_value rt s prop (mono_object_unbox rt s (object_priv object)) args
         else mono_property_set_value rt s prop (object_priv object) args)"

definition m_object_set_field :: "'s mono \<Rightarrow> 's \<Rightarrow> MObject \<Rightarrow> string \<Rightarrow> ptr \<Rightarrow> 's" where
  "m_object_set_field rt s object field_name val =
     (let klass = mono_object_get_class rt s (object_priv object);
          field = mono_class_get_field_from_name rt s klass field_name;
          type = mono_class_get_type rt s klass
      in mono_field_set_value rt s (object_priv object) field val)"

definition m_object_invoke ::
  "'s mono \<Rightarrow> 's \<Rightarrow> MObject \<Rightarrow> string \<Rightarrow> gint \<Rightarrow> ptr \<Rightarrow> MObject \<times> 's" where
  "m_object_invoke rt s object method_name argc args =
     (let klass = mono_object_get_class rt s (object_priv object);
          method = mono_class_get_method_from_name rt s klass method_name argc;
          type = mono_class_get_type rt s klass
      in if mono_type_is_struct rt s type
         then (let (r, s1) = mono_runtime_invoke rt s method
                               (mono_object_unbox rt s (object_priv object)) args
               in (\<lparr>object_priv = r\<rparr>, s1))
         else (let (r, s1) = mono_runtime_invoke rt s method (object_priv object) args
               in (\<lparr>object_priv = r\<rparr>, s1)))"

definition m_object_unbox :: "'s mono \<Rightarrow> 's \<Rightarrow> MObject \<Rightarrow> failure + ptr" where
  "m_object_unbox rt s object =
     (if object_priv object = NULL
      then Inl (Fatal ''M: Cannot unbox null object.'')
      else Inr (mono_object_unbox rt s (object_priv object)))"

subsection \<open>Static methods\<close>

text \<open>
  \<open>get_method_desc\<close> prints \<open>"%s.%s:%s"\<close> into the buffer it is handed, without a
  length. The last parameter is the size of that buffer: the text and its terminating
  zero fit, or the write runs over the end. \<open>m_invoke_method\<close> hands it an array of 256
  bytes.
\<close>

definition get_method_desc :: "string \<Rightarrow> string \<Rightarrow> string \<Rightarrow> nat \<Rightarrow> failure + string" where
  "get_method_desc name_space class_name method_name capacity =
     (let name = name_space @ ''.'' @ class_name @ '':'' @ method_name
      in if length name + 1 \<le> capacity then Inr name else Inl Overrun)"

definition m_invoke_method ::
  "'s mono \<Rightarrow> 's \<Rightarrow> ptr \<Rightarrow> string \<Rightarrow> string \<Rightarrow> string \<Rightarrow> string \<Rightarrow> ptr
     \<Rightarrow> failure + (MObject \<times> 's)" where
  "m_invoke_method rt s indeterminate assembly_name name_space static_class_name method_name params =
     (case get_method_desc name_space static_class_name method_name 256 of
        Inl e \<Rightarrow> Inl e
      | Inr name \<Rightarrow>
          (let assembly = find_assembly rt s indeterminate (Some assembly_name)
           in if assembly = NULL
              then Inl (Fatal (''M: Unable to find assembly '' @ assembly_name @ ''.'' @ [CHR 0x0A]))
              else
                (let image = mono_assembly_get_image rt s assembly;
                     method_desc = (name, False);
                     method = mono_method_desc_search_in_image rt s method_desc image
                 in if method \<noteq> NULL
                    then (let (r, s1) = mono_runtime_invoke rt s method NULL params
                          in Inr (\<lparr>object_priv = r\<rparr>, s1))
                    else Inl (Fatal (''M: Unable to invoke '' @ name @ ''.'' @ [CHR 0x0A])))))"

subsection \<open>Arrays\<close>

text \<open>
  \<open>mono_array_new\<close> takes its length as \<open>uintptr_t\<close>: the \<open>gint\<close> argument is
  sign-extended. \<open>mono_array_length\<close> returns \<open>uintptr_t\<close>, and \<open>m_array_length\<close>
  returns it as \<open>gint\<close>: the low 32 bits.
\<close>

definition m_array ::
  "'s mono \<Rightarrow> 's \<Rightarrow> ptr \<Rightarrow> string \<Rightarrow> string \<Rightarrow> string \<Rightarrow> gint \<Rightarrow> MArray \<times> 's" where
  "m_array rt s indeterminate assembly_name name_space name size' =
     (let assembly = find_assembly rt s indeterminate (Some assembly_name);
          image = mono_assembly_get_image rt s assembly;
          klass = mono_class_from_name rt s image name_space name;
          (r, s1) = mono_array_new rt s (mono_domain_get rt s) klass (scast size')
      in (\<lparr>array_priv = r\<rparr>, s1))"

definition m_array_int32 :: "'s mono \<Rightarrow> 's \<Rightarrow> gint \<Rightarrow> MArray \<times> 's" where
  "m_array_int32 rt s size' =
     (let (r, s1) = mono_array_new rt s (mono_domain_get rt s) (mono_get_int32_class rt s)
                      (scast size')
      in (\<lparr>array_priv = r\<rparr>, s1))"

text \<open>
  The body of \<open>m_array_addr_with_size\<close> is one expression statement: the address is
  computed and dropped, and control reaches the closing brace of a function that returns
  \<open>gchar *\<close>. What the caller receives is not set by the function: it is the parameter
  \<open>indeterminate\<close>.
\<close>

definition m_array_addr_with_size :: "'s mono \<Rightarrow> 's \<Rightarrow> ptr \<Rightarrow> MArray \<Rightarrow> gint \<Rightarrow> gint \<Rightarrow> ptr" where
  "m_array_addr_with_size rt s indeterminate object size' index =
     (let addr = mono_array_addr_with_size rt s (array_priv object) size' index
      in indeterminate)"

definition m_array_length :: "'s mono \<Rightarrow> 's \<Rightarrow> MArray \<Rightarrow> gint" where
  "m_array_length rt s object = ucast (mono_array_length rt s (array_priv object))"

subsection \<open>A small runtime to run the functions on\<close>

text \<open>
  A concrete instance of the runtime record, used to evaluate the functions above on
  explicit inputs. Its state lists the loaded assemblies (handle and image name, in the
  order of iteration), the classes of the allocated objects, the lengths of the allocated
  arrays, the next free address and the invocations made so far (method, receiver,
  arguments). The image of an assembly sits one address after it, the type of a class
  five after it, the data of a boxed object eight after its header. The namespace
  \<open>Game\<close> has the value type \<open>Vector\<close> (class 200, a constructor of three arguments)
  and the reference type \<open>Player\<close> (class 210, a constructor without arguments, a
  method \<open>Spawn\<close>, a property \<open>Health\<close>); the static method \<open>Game.Main:Init\<close> is
  method 300 of the image at address 11.
\<close>

record sample_state =
  sample_assemblies :: "(ptr \<times> string) list"
  sample_objects :: "(ptr \<times> ptr) list"
  sample_arrays :: "(ptr \<times> uintptr) list"
  sample_next :: ptr
  sample_invocations :: "(ptr \<times> ptr \<times> ptr) list"

definition sample_runtime :: "sample_state mono" where
  "sample_runtime =
     \<lparr>loaded_assemblies = (\<lambda>s. map fst (sample_assemblies s)),
      mono_assembly_get_image = (\<lambda>s a. if a = NULL then NULL else a + 1),
      mono_image_get_name =
        (\<lambda>s i. if i = NULL then None else map_of (sample_assemblies s) (i - 1)),
      mono_domain_get = (\<lambda>s. 1),
      mono_class_from_name =
        (\<lambda>s image ns n.
           if image = NULL then NULL
           else if ns = ''Game'' \<and> n = ''Vector'' then 200
           else if ns = ''Game'' \<and> n = ''Player'' then 210
           else NULL),
      mono_object_new =
        (\<lambda>s d k. (sample_next s,
                   s\<lparr>sample_objects := (sample_next s, k) # sample_objects s,
                     sample_next := sample_next s + 16\<rparr>)),
      mono_class_get_method_from_name =
        (\<lambda>s k n argc.
           if k = 200 \<and> n = ''.ctor'' \<and> argc = 3 then 201
           else if k = 210 \<and> n = ''.ctor'' \<and> argc = 0 then 211
           else if k = 210 \<and> n = ''Spawn'' \<and> argc = 0 then 212
           else NULL),
      mono_class_get_type = (\<lambda>s k. if k = NULL then NULL else k + 5),
      mono_type_is_struct = (\<lambda>s t. t = 205),
      mono_runtime_invoke =
        (\<lambda>s m receiver args.
           (NULL, s\<lparr>sample_invocations := sample_invocations s @ [(m, receiver, args)]\<rparr>)),
      mono_object_unbox = (\<lambda>s obj. obj + 8),
      mono_object_get_class =
        (\<lambda>s obj. case map_of (sample_objects s) obj of None \<Rightarrow> NULL | Some k \<Rightarrow> k),
      mono_class_get_property_from_name =
        (\<lambda>s k n. if k = 210 \<and> n = ''Health'' then 213 else NULL),
      mono_property_get_value = (\<lambda>s prop obj. (if prop = 213 then 900 else NULL, s)),
      mono_property_set_value = (\<lambda>s prop obj args. s),
      mono_class_get_field_from_name = (\<lambda>s k n. NULL),
      mono_field_set_value = (\<lambda>s obj field v. s),
      mono_method_desc_search_in_image =
        (\<lambda>s desc image. if image = 11 \<and> desc = (''Game.Main:Init'', False) then 300 else NULL),
      mono_get_int32_class = (\<lambda>s. 50),
      mono_array_new =
        (\<lambda>s d k n. (sample_next s,
                     s\<lparr>sample_arrays := (sample_next s, n) # sample_arrays s,
                       sample_next := sample_next s + 32 + 8 * unat n\<rparr>)),
      mono_array_addr_with_size =
        (\<lambda>s a sz i. nat (int a + 32 + sint sz * sint i)),
      mono_array_length =
        (\<lambda>s a. case map_of (sample_arrays s) a of None \<Rightarrow> 0 | Some n \<Rightarrow> n),
      mono_set_dirs = (\<lambda>s a c. s),
      mono_jit_init_version = (\<lambda>s n v. (1, s))\<rparr>"

definition sample_start :: sample_state where
  "sample_start =
     \<lparr>sample_assemblies = [(10, ''Game''), (20, ''mscorlib''), (30, ''Game'')],
      sample_objects = [],
      sample_arrays = [],
      sample_next = 4096,
      sample_invocations = []\<rparr>"

text \<open>The sample after one object of class \<open>k\<close> has been allocated, at address 4096.\<close>

definition sample_allocated :: "ptr \<Rightarrow> sample_state" where
  "sample_allocated k = sample_start\<lparr>sample_objects := [(4096, k)], sample_next := 4112\<rparr>"

subsection \<open>What is assumed of the runtime's arrays\<close>

text \<open>
  The runtime's interface describes \<open>mono_array_new\<close> as allocating an array of the
  requested number of elements and \<open>mono_array_length\<close> as returning the number of
  elements of an array. For requests up to the largest \<open>gint\<close> this is the only fact
  about the runtime that a statement on lengths rests on.
\<close>

definition array_length_contract :: "'s mono \<Rightarrow> bool" where
  "array_length_contract rt \<longleftrightarrow>
     (\<forall>s d k n a s1. n \<le> 0x7FFFFFFF \<longrightarrow> mono_array_new rt s d k n = (a, s1) \<longrightarrow>
        mono_array_length rt s1 a = n)"

section \<open>Properties\<close>

subsection \<open>String comparison\<close>

lemma strcmp_eq_0_iff: "strcmp a b = 0 \<longleftrightarrow> a = b"
  by (induction a b rule: strcmp.induct) auto

lemma g_strcmp0_eq_0_iff: "g_strcmp0 str1 str2 = 0 \<longleftrightarrow> str1 = str2"
  by (cases str1; cases str2) (simp_all add: g_strcmp0_def strcmp_eq_0_iff)

subsection \<open>The scan of the loaded assemblies\<close>

lemma foreach_assembly_name [simp]:
  "query_name (foreach_assembly rt s a q) = query_name q"
  by (simp add: foreach_assembly_def)

lemma foldl_foreach_assembly_name [simp]:
  "query_name (foldl (\<lambda>q a. foreach_assembly rt s a q) q xs) = query_name q"
  by (induction xs arbitrary: q) simp_all

lemma foreach_assembly_assembly:
  "query_assembly (foreach_assembly rt s a q) =
     (if assembly_get_name rt s a = query_name q then a else query_assembly q)"
  by (simp add: foreach_assembly_def g_strcmp0_eq_0_iff)

lemma foldl_foreach_assembly:
  "query_assembly (foldl (\<lambda>q a. foreach_assembly rt s a q) q xs) =
     (let ms = filter (\<lambda>a. assembly_get_name rt s a = query_name q) xs
      in if ms = [] then query_assembly q else last ms)"
proof (induction xs rule: rev_induct)
  case Nil
  show ?case by simp
next
  case (snoc x xs)
  then show ?case
    by (simp add: foreach_assembly_assembly Let_def)
qed

lemma find_assembly_eq:
  "find_assembly rt s indeterminate name =
     (let ms = filter (\<lambda>a. assembly_get_name rt s a = name) (loaded_assemblies rt s)
      in if ms = [] then indeterminate else last ms)"
  by (simp add: find_assembly_def mono_assembly_foreach_def foldl_foreach_assembly Let_def)

lemma find_assembly_unmatched:
  assumes "\<forall>a \<in> set (loaded_assemblies rt s). assembly_get_name rt s a \<noteq> name"
  shows "find_assembly rt s indeterminate name = indeterminate"
proof -
  from assms have "filter (\<lambda>a. assembly_get_name rt s a = name) (loaded_assemblies rt s) = []"
    by (simp add: filter_empty_conv)
  then show ?thesis by (simp add: find_assembly_eq Let_def)
qed

lemma sample_names [simp]:
  "assembly_get_name sample_runtime sample_start a =
     (if a = 10 \<or> a = 30 then Some ''Game'' else if a = 20 then Some ''mscorlib'' else None)"
  by (simp add: assembly_get_name_def sample_runtime_def sample_start_def)

lemma sample_loaded [simp]: "loaded_assemblies sample_runtime sample_start = [10, 20, 30]"
  by (simp add: sample_runtime_def sample_start_def)

text \<open>
  C1 (as amended). When at least one loaded assembly has the given image name,
  \<open>find_assembly\<close> returns the last such assembly in the order of iteration: every match
  overwrites the one before it.
\<close>

theorem find_assembly_last_match:
  assumes "\<exists>a \<in> set (loaded_assemblies rt s). assembly_get_name rt s a = name"
  shows "find_assembly rt s indeterminate name =
           last (filter (\<lambda>a. assembly_get_name rt s a = name) (loaded_assemblies rt s))"
proof -
  from assms have "filter (\<lambda>a. assembly_get_name rt s a = name) (loaded_assemblies rt s) \<noteq> []"
    by (auto simp: filter_empty_conv)
  then show ?thesis
    by (simp add: find_assembly_eq Let_def)
qed

theorem find_assembly_last_match_witness:
  "(\<exists>a \<in> set (loaded_assemblies sample_runtime sample_start).
      assembly_get_name sample_runtime sample_start a = Some ''Game'')
   \<and> find_assembly sample_runtime sample_start NULL (Some ''Game'') = 30"
proof -
  have h: "\<exists>a \<in> set (loaded_assemblies sample_runtime sample_start).
             assembly_get_name sample_runtime sample_start a = Some ''Game''"
    by simp
  from find_assembly_last_match [OF h, of NULL] h show ?thesis
    by simp
qed

text \<open>
  The claim as stated fails where two loaded assemblies share the image name: the
  first one in the order of iteration is assembly 10, the function returns assembly 30.
\<close>

theorem find_assembly_first_match_counterexample:
  "first_matching_assembly sample_runtime sample_start (Some ''Game'') = 10
   \<and> find_assembly sample_runtime sample_start NULL (Some ''Game'') = 30"
  by (simp add: first_matching_assembly_def find_assembly_eq)

text \<open>
  C2. With the three assemblies of the sample loaded, none of them named
  \<open>Missing\<close>, and the address 4096 left in the stack slot of the query, the function
  returns 4096 and not the null pointer.
\<close>

theorem find_assembly_unmatched_returns_stack_value:
  "find_assembly sample_runtime sample_start 4096 (Some ''Missing'') = 4096"
  by (simp add: find_assembly_eq)

subsection \<open>The sample runtime, field by field\<close>

lemma sample_runtime_fields:
  "mono_assembly_get_image sample_runtime s a = (if a = NULL then NULL else a + 1)"
  "mono_domain_get sample_runtime s = 1"
  "mono_class_from_name sample_runtime s img ns n =
     (if img = NULL then NULL
      else if ns = ''Game'' \<and> n = ''Vector'' then 200
      else if ns = ''Game'' \<and> n = ''Player'' then 210
      else NULL)"
  "mono_object_new sample_runtime s d k =
     (sample_next s,
      s\<lparr>sample_objects := (sample_next s, k) # sample_objects s,
        sample_next := sample_next s + 16\<rparr>)"
  "mono_class_get_method_from_name sample_runtime s k n argc =
     (if k = 200 \<and> n = ''.ctor'' \<and> argc = 3 then 201
      else if k = 210 \<and> n = ''.ctor'' \<and> argc = 0 then 211
      else if k = 210 \<and> n = ''Spawn'' \<and> argc = 0 then 212
      else NULL)"
  "mono_class_get_type sample_runtime s k = (if k = NULL then NULL else k + 5)"
  "mono_type_is_struct sample_runtime s t = (t = 205)"
  "mono_runtime_invoke sample_runtime s m receiver args =
     (NULL, s\<lparr>sample_invocations := sample_invocations s @ [(m, receiver, args)]\<rparr>)"
  "mono_object_unbox sample_runtime s obj = obj + 8"
  "mono_object_get_class sample_runtime s obj =
     (case map_of (sample_objects s) obj of None \<Rightarrow> NULL | Some k \<Rightarrow> k)"
  "mono_method_desc_search_in_image sample_runtime s desc img =
     (if img = 11 \<and> desc = (''Game.Main:Init'', False) then 300 else NULL)"
  "mono_get_int32_class sample_runtime s = 50"
  "mono_array_new sample_runtime s d k len =
     (sample_next s,
      s\<lparr>sample_arrays := (sample_next s, len) # sample_arrays s,
        sample_next := sample_next s + 32 + 8 * unat len\<rparr>)"
  "mono_array_addr_with_size sample_runtime s a sz i = nat (int a + 32 + sint sz * sint i)"
  "mono_array_length sample_runtime s a =
     (case map_of (sample_arrays s) a of None \<Rightarrow> 0 | Some n \<Rightarrow> n)"
  "mono_set_dirs sample_runtime s ad cd = s"
  "mono_jit_init_version sample_runtime s rn v = (1, s)"
  by (simp_all add: sample_runtime_def)

lemma sample_array_length_contract: "array_length_contract sample_runtime"
  by (simp add: array_length_contract_def sample_runtime_fields)

subsection \<open>Arrays\<close>

text \<open>
  C3. On the sample, the element of index 2 of an array at address 4096 with elements
  of 4 bytes is at address 4136. \<open>m_array_addr_with_size\<close> computes that address and
  does not return it: with a null pointer in the place of the return value, the caller
  receives the null pointer.
\<close>

theorem m_array_addr_with_size_drops_address:
  "mono_array_addr_with_size sample_runtime sample_start 4096 4 2 = 4136
   \<and> m_array_addr_with_size sample_runtime sample_start NULL \<lparr>array_priv = 4096\<rparr> 4 2 = NULL"
  by (simp add: m_array_addr_with_size_def sample_runtime_fields)

lemma m_array_addr_with_size_eq:
  "m_array_addr_with_size rt s indeterminate object size' index = indeterminate"
  by (simp add: m_array_addr_with_size_def)

lemma ucast_scast_gint: "ucast (scast (n :: gint) :: uintptr) = n"
  by (rule bit_word_eqI) (auto simp add: bit_simps)

text \<open>
  C8. On a runtime whose arrays have the length they were requested with, the length
  read back through \<open>m_array_length\<close> from the array made by \<open>m_array_int32\<close> is the
  requested one, for the requests 0, 1 and 1000: the conversion of the \<open>gint\<close> to
  \<open>uintptr_t\<close> and of the length back to \<open>gint\<close> loses nothing.
\<close>

theorem m_array_length_m_array_int32:
  assumes "array_length_contract rt"
    and "size' \<in> {0, 1, 1000}"
    and "m_array_int32 rt s size' = (arr, s1)"
  shows "m_array_length rt s1 arr = size'"
proof -
  obtain a where new: "mono_array_new rt s (mono_domain_get rt s) (mono_get_int32_class rt s)
                         (scast size') = (a, s1)" and arr: "arr = \<lparr>array_priv = a\<rparr>"
    using assms(3) by (auto simp add: m_array_int32_def split: prod.splits)
  from assms(2) have "(scast size' :: uintptr) \<le> 0x7FFFFFFF"
    by auto
  with assms(1) new have "mono_array_length rt s1 a = scast size'"
    unfolding array_length_contract_def by blast
  then show ?thesis
    by (simp add: m_array_length_def arr ucast_scast_gint)
qed

theorem m_array_length_m_array_int32_witness:
  "array_length_contract sample_runtime
   \<and> (1000 :: gint) \<in> {0, 1, 1000}
   \<and> m_array_length sample_runtime (snd (m_array_int32 sample_runtime sample_start 1000))
       (fst (m_array_int32 sample_runtime sample_start 1000)) = 1000"
  using m_array_length_m_array_int32 [OF sample_array_length_contract, of 1000 sample_start
      "fst (m_array_int32 sample_runtime sample_start 1000)"
      "snd (m_array_int32 sample_runtime sample_start 1000)"]
    sample_array_length_contract
  by simp

subsection \<open>Objects\<close>

text \<open>
  C4. The class 210 of the sample has no method \<open>Missing\<close>: the lookup returns the
  null pointer. \<open>m_object_invoke\<close> does not test it: it hands the null method to
  \<open>mono_runtime_invoke\<close> and returns what that call returns. No message is issued.
\<close>

theorem m_object_invoke_missing_method:
  "mono_class_get_method_from_name sample_runtime (sample_allocated 210) 210 ''Missing'' 0 = NULL
   \<and> m_object_invoke sample_runtime (sample_allocated 210) \<lparr>object_priv = 4096\<rparr> ''Missing'' 0 7 =
       (\<lparr>object_priv = NULL\<rparr>,
        (sample_allocated 210)\<lparr>sample_invocations := [(NULL, 4096, 7)]\<rparr>)"
  by (simp add: m_object_invoke_def sample_runtime_fields sample_allocated_def sample_start_def)

text \<open>
  C6. Let \<open>klass\<close> be the class \<open>m_object\<close> resolves, \<open>object\<close> the instance it
  allocates and \<open>ctor\<close> the method \<open>.ctor\<close> of \<open>argc\<close> parameters of that class.
  Without such a constructor the call is fatal, with a message that names the type.
  With one, the constructor is invoked on the unboxed data of the instance when the type
  of the class is a struct, and on the instance itself otherwise; the handle returned
  wraps the instance in both cases.
\<close>

theorem m_object_constructor_dispatch:
  assumes "mono_class_from_name rt s
             (mono_assembly_get_image rt s (find_assembly rt s indeterminate (Some assembly_name)))
             name_space name = klass"
    and "mono_object_new rt s (mono_domain_get rt s) klass = (object, s1)"
    and "mono_class_get_method_from_name rt s1 klass ''.ctor'' argc = ctor"
  shows "m_object rt s indeterminate assembly_name name_space name argc args =
           (if ctor = NULL
            then Inl (Fatal (''M: Unable to find constructor for type '' @ name @ ''.'' @ [CHR 0x0A]))
            else if mono_type_is_struct rt s1 (mono_class_get_type rt s1 klass)
            then Inr (\<lparr>object_priv = object\<rparr>,
                      snd (mono_runtime_invoke rt s1 ctor (mono_object_unbox rt s1 object) args))
            else Inr (\<lparr>object_priv = object\<rparr>,
                      snd (mono_runtime_invoke rt s1 ctor object args)))"
  using assms by (simp add: m_object_def Let_def split: prod.splits)

lemma sample_find_Game: "find_assembly sample_runtime sample_start i (Some ''Game'') = 30"
  by (simp add: find_assembly_eq)

lemma sample_no_invocations:
  "sample_invocations sample_start = []"
  "sample_invocations (sample_allocated k) = []"
  by (simp_all add: sample_allocated_def sample_start_def)

lemma sample_object_new:
  "mono_object_new sample_runtime sample_start (mono_domain_get sample_runtime sample_start) k =
     (4096, sample_allocated k)"
  by (simp add: sample_runtime_fields sample_allocated_def sample_start_def)

theorem m_object_constructor_dispatch_witness:
  "m_object sample_runtime sample_start NULL ''Game'' ''Game'' ''Vector'' 3 7 =
     Inr (\<lparr>object_priv = 4096\<rparr>, (sample_allocated 200)\<lparr>sample_invocations := [(201, 4104, 7)]\<rparr>)
   \<and> m_object sample_runtime sample_start NULL ''Game'' ''Game'' ''Player'' 0 7 =
     Inr (\<lparr>object_priv = 4096\<rparr>, (sample_allocated 210)\<lparr>sample_invocations := [(211, 4096, 7)]\<rparr>)
   \<and> m_object sample_runtime sample_start NULL ''Game'' ''Game'' ''Player'' 2 7 =
     Inl (Fatal (''M: Unable to find constructor for type Player.'' @ [CHR 0x0A]))"
proof -
  have vector: "mono_class_from_name sample_runtime sample_start
                  (mono_assembly_get_image sample_runtime sample_start
                     (find_assembly sample_runtime sample_start NULL (Some ''Game'')))
                  ''Game'' ''Vector'' = 200"
    by (simp add: sample_find_Game sample_runtime_fields)
  have player: "mono_class_from_name sample_runtime sample_start
                  (mono_assembly_get_image sample_runtime sample_start
                     (find_assembly sample_runtime sample_start NULL (Some ''Game'')))
                  ''Game'' ''Player'' = 210"
    by (simp add: sample_find_Game sample_runtime_fields)
  have ctor3: "mono_class_get_method_from_name sample_runtime (sample_allocated 200) 200
                 ''.ctor'' 3 = 201"
    by (simp add: sample_runtime_fields)
  have ctor0: "mono_class_get_method_from_name sample_runtime (sample_allocated 210) 210
                 ''.ctor'' 0 = 211"
    by (simp add: sample_runtime_fields)
  have ctor2: "mono_class_get_method_from_name sample_runtime (sample_allocated 210) 210
                 ''.ctor'' 2 = NULL"
    by (simp add: sample_runtime_fields)
  from m_object_constructor_dispatch [OF vector sample_object_new ctor3, of 7]
    m_object_constructor_dispatch [OF player sample_object_new ctor0, of 7]
    m_object_constructor_dispatch [OF player sample_object_new ctor2, of 7]
  show ?thesis
    by (simp add: sample_runtime_fields sample_no_invocations)
qed

text \<open>
  C7. On an object handle that wraps the null pointer \<open>m_object_unbox\<close> is fatal, with
  its message, whatever the runtime: the runtime is not asked to unbox. On any other
  handle it returns the address \<open>mono_object_unbox\<close> gives for the object.
\<close>

theorem m_object_unbox_null_fatal:
  "(object_priv object = NULL \<longrightarrow>
      m_object_unbox rt s object = Inl (Fatal ''M: Cannot unbox null object.''))
   \<and> (object_priv object \<noteq> NULL \<longrightarrow>
      m_object_unbox rt s object = Inr (mono_object_unbox rt s (object_priv object)))"
  by (simp add: m_object_unbox_def)

theorem m_object_unbox_null_fatal_witness:
  "m_object_unbox sample_runtime sample_start \<lparr>object_priv = NULL\<rparr> =
     Inl (Fatal ''M: Cannot unbox null object.'')
   \<and> m_object_unbox sample_runtime sample_start \<lparr>object_priv = 4096\<rparr> = Inr 4104"
  using m_object_unbox_null_fatal [of "\<lparr>object_priv = NULL\<rparr>" sample_runtime sample_start]
    m_object_unbox_null_fatal [of "\<lparr>object_priv = 4096\<rparr>" sample_runtime sample_start]
  by (simp add: sample_runtime_fields)

text \<open>
  C10. \<open>m_object_get_property\<close> and \<open>m_object_get_property_array\<close> wrap the same
  pointer and leave the runtime in the same state, on every object and property name.
\<close>

theorem m_object_get_property_array_same:
  "object_priv (fst (m_object_get_property rt s object property_name)) =
     array_priv (fst (m_object_get_property_array rt s object property_name))
   \<and> snd (m_object_get_property rt s object property_name) =
     snd (m_object_get_property_array rt s object property_name)"
  by (simp add: m_object_get_property_def m_object_get_property_array_def Let_def
           split: prod.splits)

subsection \<open>Domain creation\<close>

text \<open>
  C5. \<open>m_domain_new\<close> goes on to initialise the runtime for the two tags
  \<open>M_RUNTIME_4_0\<close> and \<open>M_RUNTIME_4_5\<close>, which are different tags, with the one
  version text \<open>v4.0.30319\<close>; for every other value of the tag it is fatal.
\<close>

theorem m_domain_new_runtime_tags:
  "(runtime = M_RUNTIME_4_0 \<or> runtime = M_RUNTIME_4_5 \<longrightarrow>
      m_domain_new rt s assembly_dir config_dir root_domain_name runtime =
        (let r = mono_jit_init_version rt (mono_set_dirs rt s assembly_dir config_dir)
                   root_domain_name ''v4.0.30319''
         in Inr (\<lparr>domain = fst r\<rparr>, snd r)))
   \<and> (runtime \<noteq> M_RUNTIME_4_0 \<and> runtime \<noteq> M_RUNTIME_4_5 \<longrightarrow>
      m_domain_new rt s assembly_dir config_dir root_domain_name runtime =
        Inl (Fatal ''M: Invalid runtime version.''))
   \<and> M_RUNTIME_4_0 \<noteq> M_RUNTIME_4_5"
  by (auto simp add: m_domain_new_def Let_def M_RUNTIME_4_0_def M_RUNTIME_4_5_def
           split: prod.splits)

theorem m_domain_new_runtime_tags_witness:
  "m_domain_new sample_runtime sample_start None None ''root'' M_RUNTIME_4_0 =
     Inr (\<lparr>domain = 1\<rparr>, sample_start)
   \<and> m_domain_new sample_runtime sample_start None None ''root'' M_RUNTIME_4_5 =
     Inr (\<lparr>domain = 1\<rparr>, sample_start)
   \<and> m_domain_new sample_runtime sample_start None None ''root'' 2 =
     Inl (Fatal ''M: Invalid runtime version.'')"
  using m_domain_new_runtime_tags [of M_RUNTIME_4_0 sample_runtime sample_start None None "''root''"]
    m_domain_new_runtime_tags [of M_RUNTIME_4_5 sample_runtime sample_start None None "''root''"]
    m_domain_new_runtime_tags [of 2 sample_runtime sample_start None None "''root''"]
  by (simp add: sample_runtime_fields M_RUNTIME_4_0_def M_RUNTIME_4_5_def)

subsection \<open>Static methods\<close>

lemma get_method_desc_fits:
  "length name_space + length class_name + length method_name + 3 \<le> capacity \<Longrightarrow>
   get_method_desc name_space class_name method_name capacity =
     Inr (name_space @ ''.'' @ class_name @ '':'' @ method_name)"
  by (simp add: get_method_desc_def)

lemma m_invoke_method_resolved:
  assumes "length name_space + length static_class_name + length method_name + 3 \<le> 256"
    and "find_assembly rt s indeterminate (Some assembly_name) = assembly"
    and "assembly \<noteq> NULL"
    and "mono_method_desc_search_in_image rt s
           (name_space @ ''.'' @ static_class_name @ '':'' @ method_name, False)
           (mono_assembly_get_image rt s assembly) = method"
  shows "m_invoke_method rt s indeterminate assembly_name name_space static_class_name
           method_name params =
           (if method \<noteq> NULL
            then (let r = mono_runtime_invoke rt s method NULL params
                  in Inr (\<lparr>object_priv = fst r\<rparr>, snd r))
            else Inl (Fatal (''M: Unable to invoke '' @ name_space @ ''.'' @ static_class_name
                               @ '':'' @ method_name @ ''.'' @ [CHR 0x0A])))"
  using assms
  by (simp add: m_invoke_method_def get_method_desc_fits Let_def split: prod.splits)

lemma m_invoke_method_overrun:
  assumes "256 < length name_space + length static_class_name + length method_name + 3"
  shows "m_invoke_method rt s indeterminate assembly_name name_space static_class_name
           method_name params = Inl Overrun"
  using assms by (simp add: m_invoke_method_def get_method_desc_def)

text \<open>
  C9. No loaded assembly of the sample is named \<open>Missing\<close>. With the address of the
  loaded assembly 10 left in the stack slot of the query, \<open>find_assembly\<close> returns 10,
  the test against the null pointer passes, and \<open>m_invoke_method\<close> resolves
  \<open>Game.Main:Init\<close> in the image of assembly 10 and invokes it: the call returns
  instead of ending the process.
\<close>

theorem m_invoke_method_unknown_assembly:
  "find_assembly sample_runtime sample_start 10 (Some ''Missing'') = 10
   \<and> m_invoke_method sample_runtime sample_start 10 ''Missing'' ''Game'' ''Main'' ''Init'' 7 =
     Inr (\<lparr>object_priv = NULL\<rparr>, sample_start\<lparr>sample_invocations := [(300, NULL, 7)]\<rparr>)"
proof -
  have f: "find_assembly sample_runtime sample_start 10 (Some ''Missing'') = 10"
    by (simp add: find_assembly_eq)
  then show ?thesis
    by (simp add: m_invoke_method_def get_method_desc_def Let_def sample_runtime_fields
          sample_no_invocations)
qed

end
